theory Spec2Isabelle
  imports Complex_Main "HOL-Library.Char_ord" "HOL-Library.List_Lexorder" "HOL-Library.Multiset"
begin

section \<open>Values\<close>

text \<open>
  The service of \<^verbatim>\<open>app.py\<close> keeps one status row and an append-only history in an
  SQLite file and serves them over four HTTP endpoints. Every function that touches
  the file runs under the global \<^verbatim>\<open>LOCK\<close> and commits once, so each call is one
  transition of the database value below.

  Python strings are \<open>string\<close>s (non-ASCII text as its UTF-8 bytes), Python and
  SQLite integers are \<open>int\<close>, floats are \<open>real\<close> (no arithmetic is done on them:
  they are only stored and returned). A column holds the value written to it: that
  the SQLite driver refuses an integer beyond 64 bits is not modelled. A timestamp is
  the text
  \<^verbatim>\<open>datetime.utcnow().isoformat() + "Z"\<close>; the clock is outside the program, so the
  reading is an argument \<open>now\<close> of every function that takes one, and timestamps
  are compared as the texts they are.
\<close>

type_synonym timestamp = string

text \<open>The values that \<^verbatim>\<open>json.dumps\<close> takes and \<^verbatim>\<open>json.loads\<close> returns.\<close>

datatype json =
    JNull
  | JBool bool
  | JInt int
  | JFloat real
  | JStr string
  | JArr "json list"
  | JObj "(string \<times> json) list"

text \<open>
  \<^verbatim>\<open>json.dumps\<close> and \<^verbatim>\<open>json.loads\<close> belong to Python's library. The functions that
  call them take them as arguments: \<open>dumps\<close> renders a value as text, \<open>loads\<close>
  parses a text and is \<open>None\<close> where \<^verbatim>\<open>json.loads\<close> raises.
\<close>

type_synonym json_dumps = "json \<Rightarrow> string"
type_synonym json_loads = "string \<Rightarrow> json option"

section \<open>Errors and HTTP status\<close>

text \<open>
  \<open>HTTPException\<close> and \<open>RuntimeError\<close> are raised by the source.
  \<open>RequestValidationError\<close> is what the framework raises when a request body fails
  the pydantic model, \<open>OperationalError\<close> what \<^verbatim>\<open>sqlite3\<close> raises on a missing table.
\<close>

datatype error =
    HTTPException nat string
  | RequestValidationError
  | RuntimeError string
  | OperationalError string

text \<open>
  The framework answers an \<open>HTTPException\<close> with its status code, a body that fails
  validation with 422, and any exception the endpoint lets through with 500.
\<close>

fun status_code :: "error \<Rightarrow> nat" where
  "status_code (HTTPException code detail) = code"
| "status_code RequestValidationError = 422"
| "status_code (RuntimeError msg) = 500"
| "status_code (OperationalError msg) = 500"

definition http_status :: "error + 'a \<Rightarrow> nat" where
  "http_status res = (case res of Inl e \<Rightarrow> status_code e | Inr v \<Rightarrow> 200)"

definition client_error :: "nat \<Rightarrow> bool" where
  "client_error code = (400 \<le> code \<and> code < 500)"

section \<open>Request and response models\<close>

text \<open>
  \<^verbatim>\<open>StateUpdate\<close>: four optional fields, \<open>None\<close> when the body leaves the field out or
  gives null.
\<close>

record StateUpdate =
  upd_energy :: "int option"
  upd_heart_rate :: "int option"
  upd_temperature :: "real option"
  upd_mood :: "string option"

text \<open>The constraints \<^verbatim>\<open>ge=0, le=100\<close> on energy and \<^verbatim>\<open>ge=0\<close> on heart\_rate.\<close>

definition StateUpdate_valid :: "StateUpdate \<Rightarrow> bool" where
  "StateUpdate_valid p =
     ((case upd_energy p of None \<Rightarrow> True | Some e \<Rightarrow> 0 \<le> e \<and> e \<le> 100) \<and>
      (case upd_heart_rate p of None \<Rightarrow> True | Some h \<Rightarrow> 0 \<le> h))"

text \<open>
  \<^verbatim>\<open>payload.dict(exclude_none=True)\<close> has a key for exactly the fields that are not
  \<open>None\<close>, in the order of the model's fields. The dict \<open>changed\<close> is passed on as
  the record it came from; \<open>dict_exclude_none\<close> lists its items.
\<close>

definition dict_exclude_none :: "StateUpdate \<Rightarrow> (string \<times> json) list" where
  "dict_exclude_none p =
     (case upd_energy p of None \<Rightarrow> [] | Some e \<Rightarrow> [(''energy'', JInt e)]) @
     (case upd_heart_rate p of None \<Rightarrow> [] | Some h \<Rightarrow> [(''heart_rate'', JInt h)]) @
     (case upd_temperature p of None \<Rightarrow> [] | Some t \<Rightarrow> [(''temperature'', JFloat t)]) @
     (case upd_mood p of None \<Rightarrow> [] | Some m \<Rightarrow> [(''mood'', JStr m)])"

record StateResponse =
  resp_energy :: int
  resp_heart_rate :: int
  resp_temperature :: real
  resp_mood :: string
  resp_updated_at :: timestamp

record CommRequest =
  message :: string

record CommResponse =
  comm_status :: string
  comm_who :: string
  comm_ts :: timestamp

section \<open>The database\<close>

record state_row =
  row_id :: int
  row_energy :: int
  row_heart_rate :: int
  row_temperature :: real
  row_mood :: string
  row_last_updated :: timestamp

record history_row =
  h_id :: int
  h_type :: string
  h_who :: "string option"
  h_content :: string
  h_ts :: timestamp

text \<open>
  A table is \<open>None\<close> until \<^verbatim>\<open>CREATE TABLE\<close> has run. \<open>history_seq\<close> is the entry
  that \<^verbatim>\<open>AUTOINCREMENT\<close> keeps for the history table: the largest id ever given.
\<close>

record database =
  state_tbl :: "state_row list option"
  history_tbl :: "history_row list option"
  history_seq :: int

definition state_rows :: "database \<Rightarrow> state_row list" where
  "state_rows db = (case state_tbl db of None \<Rightarrow> [] | Some rows \<Rightarrow> rows)"

definition history_rows :: "database \<Rightarrow> history_row list" where
  "history_rows db = (case history_tbl db of None \<Rightarrow> [] | Some rows \<Rightarrow> rows)"

text \<open>A database file that does not exist yet.\<close>

definition empty_database :: database where
  "empty_database = \<lparr>state_tbl = None, history_tbl = None, history_seq = 0\<rparr>"

text \<open>
  The constraints the two \<^verbatim>\<open>CREATE TABLE\<close> statements declare: the state table's
  key is checked to be 1, so it holds at most one row; history ids are a primary key.
\<close>

definition table_constraints :: "database \<Rightarrow> bool" where
  "table_constraints db =
     (list_all (\<lambda>r. row_id r = 1) (state_rows db) \<and>
      distinct (map row_id (state_rows db)) \<and>
      distinct (map h_id (history_rows db)))"

subsection \<open>\<^verbatim>\<open>init_db\<close>\<close>

definition seed_row :: "timestamp \<Rightarrow> state_row" where
  "seed_row now =
     \<lparr>row_id = 1, row_energy = 100, row_heart_rate = 2, row_temperature = - 5.5,
      row_mood = ''neutral'', row_last_updated = now\<rparr>"

definition create_state_table :: "database \<Rightarrow> database" where
  "create_state_table db =
     (case state_tbl db of None \<Rightarrow> db\<lparr>state_tbl := Some []\<rparr> | Some rows \<Rightarrow> db)"

definition create_history_table :: "database \<Rightarrow> database" where
  "create_history_table db =
     (case history_tbl db of None \<Rightarrow> db\<lparr>history_tbl := Some []\<rparr> | Some rows \<Rightarrow> db)"

definition init_db :: "timestamp \<Rightarrow> database \<Rightarrow> database" where
  "init_db now db =
     (let db1 = create_state_table db;
          db2 = create_history_table db1
      in if length (state_rows db2) = 0
         then db2\<lparr>state_tbl := Some (state_rows db2 @ [seed_row now])\<rparr>
         else db2)"

subsection \<open>\<^verbatim>\<open>get_state_from_db\<close>\<close>

text \<open>\<^verbatim>\<open>SELECT ... FROM state WHERE id = 1\<close> followed by \<^verbatim>\<open>fetchone()\<close>.\<close>

definition select_state :: "state_row list \<Rightarrow> state_row option" where
  "select_state rows = find (\<lambda>r. row_id r = 1) rows"

definition get_state_from_db :: "database \<Rightarrow> error + StateResponse" where
  "get_state_from_db db =
     (case state_tbl db of
        None \<Rightarrow> Inl (OperationalError ''no such table: state'')
      | Some rows \<Rightarrow>
          (case select_state rows of
             None \<Rightarrow> Inl (RuntimeError ''State missing'')
           | Some row \<Rightarrow>
               Inr \<lparr>resp_energy = row_energy row,
                    resp_heart_rate = row_heart_rate row,
                    resp_temperature = row_temperature row,
                    resp_mood = row_mood row,
                    resp_updated_at = row_last_updated row\<rparr>))"

subsection \<open>Inserting into the history\<close>

text \<open>
  \<^verbatim>\<open>INSERT INTO history (type, who, content, ts)\<close>: the new id is one more than the
  largest id the table holds or has ever held.
\<close>

definition next_history_id :: "database \<Rightarrow> history_row list \<Rightarrow> int" where
  "next_history_id db rows = fold max (map h_id rows) (history_seq db) + 1"

definition insert_history ::
  "database \<Rightarrow> string \<Rightarrow> string option \<Rightarrow> string \<Rightarrow> timestamp \<Rightarrow> error + database" where
  "insert_history db rec_type who content ts =
     (case history_tbl db of
        None \<Rightarrow> Inl (OperationalError ''no such table: history'')
      | Some rows \<Rightarrow>
          (let new_id = next_history_id db rows
           in Inr (db\<lparr>history_tbl :=
                        Some (rows @ [\<lparr>h_id = new_id, h_type = rec_type, h_who = who,
                                       h_content = content, h_ts = ts\<rparr>]),
                      history_seq := new_id\<rparr>)))"

subsection \<open>\<^verbatim>\<open>update_state_in_db\<close>\<close>

text \<open>The dict \<open>state\<close> built from the row, with its four keys.\<close>

record state_dict =
  st_energy :: int
  st_heart_rate :: int
  st_temperature :: real
  st_mood :: string

definition state_of_row :: "state_row \<Rightarrow> state_dict" where
  "state_of_row row =
     \<lparr>st_energy = row_energy row, st_heart_rate = row_heart_rate row,
      st_temperature = row_temperature row, st_mood = row_mood row\<rparr>"

text \<open>\<^verbatim>\<open>state.update(changed)\<close>: a key of \<open>changed\<close> replaces the value under it.\<close>

definition dict_update :: "state_dict \<Rightarrow> StateUpdate \<Rightarrow> state_dict" where
  "dict_update state changed =
     \<lparr>st_energy = (case upd_energy changed of None \<Rightarrow> st_energy state | Some e \<Rightarrow> e),
      st_heart_rate =
        (case upd_heart_rate changed of None \<Rightarrow> st_heart_rate state | Some h \<Rightarrow> h),
      st_temperature =
        (case upd_temperature changed of None \<Rightarrow> st_temperature state | Some t \<Rightarrow> t),
      st_mood = (case upd_mood changed of None \<Rightarrow> st_mood state | Some m \<Rightarrow> m)\<rparr>"

definition state_items :: "state_dict \<Rightarrow> (string \<times> json) list" where
  "state_items state =
     [(''energy'', JInt (st_energy state)),
      (''heart_rate'', JInt (st_heart_rate state)),
      (''temperature'', JFloat (st_temperature state)),
      (''mood'', JStr (st_mood state))]"

text \<open>\<^verbatim>\<open>UPDATE state SET ... WHERE id = 1\<close>.\<close>

definition update_state_rows ::
  "state_dict \<Rightarrow> timestamp \<Rightarrow> state_row list \<Rightarrow> state_row list" where
  "update_state_rows state ts rows =
     map (\<lambda>r. if row_id r = 1
               then r\<lparr>row_energy := st_energy state,
                      row_heart_rate := st_heart_rate state,
                      row_temperature := st_temperature state,
                      row_mood := st_mood state,
                      row_last_updated := ts\<rparr>
               else r) rows"

definition rec_content :: "StateUpdate \<Rightarrow> state_dict \<Rightarrow> json" where
  "rec_content changed state =
     JObj [(''changed'', JObj (dict_exclude_none changed)),
           (''state'', JObj (state_items state))]"

text \<open>
  The result pairs the database after the call with what the call returns or raises.
  A call that raises has not committed, so the database is the one it started from.
\<close>

definition update_state_in_db ::
  "json_dumps \<Rightarrow> timestamp \<Rightarrow> database \<Rightarrow> StateUpdate \<Rightarrow> database \<times> (error + StateResponse)" where
  "update_state_in_db dumps now db changed =
     (case state_tbl db of
        None \<Rightarrow> (db, Inl (OperationalError ''no such table: state''))
      | Some rows \<Rightarrow>
          (case select_state rows of
             None \<Rightarrow> (db, Inl (RuntimeError ''State missing''))
           | Some row \<Rightarrow>
               (let state = dict_update (state_of_row row) changed;
                    ts = now;
                    db1 = db\<lparr>state_tbl := Some (update_state_rows state ts rows)\<rparr>
                in case insert_history db1 ''state'' None
                          (dumps (rec_content changed state)) ts of
                     Inl e \<Rightarrow> (db, Inl e)
                   | Inr db2 \<Rightarrow>
                       (db2, Inr \<lparr>resp_energy = st_energy state,
                                  resp_heart_rate = st_heart_rate state,
                                  resp_temperature = st_temperature state,
                                  resp_mood = st_mood state,
                                  resp_updated_at = ts\<rparr>))))"

subsection \<open>\<^verbatim>\<open>append_history_record\<close>\<close>

definition append_history_record ::
  "json_dumps \<Rightarrow> timestamp \<Rightarrow> database \<Rightarrow> string \<Rightarrow> string option \<Rightarrow> json
     \<Rightarrow> database \<times> (error + timestamp)" where
  "append_history_record dumps now db rec_type who content =
     (let ts = now
      in case insert_history db rec_type who (dumps content) ts of
           Inl e \<Rightarrow> (db, Inl e)
         | Inr db' \<Rightarrow> (db', Inr ts))"

subsection \<open>\<^verbatim>\<open>read_history\<close>\<close>

record history_entry =
  e_id :: int
  e_type :: string
  e_who :: "string option"
  e_content :: json
  e_ts :: timestamp

text \<open>\<^verbatim>\<open>WHERE type IN (...)\<close>, added when \<open>types\<close> is neither \<open>None\<close> nor empty.\<close>

definition where_type_in :: "string list option \<Rightarrow> history_row list \<Rightarrow> history_row list" where
  "where_type_in types rows =
     (case types of
        None \<Rightarrow> rows
      | Some ts \<Rightarrow> if ts = [] then rows else filter (\<lambda>r. h_type r \<in> set ts) rows)"

text \<open>\<^verbatim>\<open>ORDER BY id DESC\<close>.\<close>

definition order_by_id_desc :: "history_row list \<Rightarrow> history_row list" where
  "order_by_id_desc rows = rev (sort_key h_id rows)"

text \<open>
  \<^verbatim>\<open>LIMIT ?\<close>, added when \<open>limit\<close> is neither \<open>None\<close> nor 0. SQLite reads a negative
  limit as no limit.
\<close>

definition sql_limit :: "int \<Rightarrow> 'a list \<Rightarrow> 'a list" where
  "sql_limit n rows = (if n < 0 then rows else take (nat n) rows)"

definition limit_rows :: "int option \<Rightarrow> 'a list \<Rightarrow> 'a list" where
  "limit_rows limit rows =
     (case limit of
        None \<Rightarrow> rows
      | Some n \<Rightarrow> if n = 0 then rows else sql_limit n rows)"

text \<open>One turn of the loop over the fetched rows.\<close>

definition entry_of_row :: "json_loads \<Rightarrow> history_row \<Rightarrow> history_entry" where
  "entry_of_row loads r =
     (let content = (case loads (h_content r) of
                       Some v \<Rightarrow> v
                     | None \<Rightarrow> JObj [(''raw'', JStr (h_content r))])
      in \<lparr>e_id = h_id r, e_type = h_type r, e_who = h_who r,
          e_content = content, e_ts = h_ts r\<rparr>)"

fun build_out :: "json_loads \<Rightarrow> history_row list \<Rightarrow> history_entry list \<Rightarrow> history_entry list" where
  "build_out loads [] out = out"
| "build_out loads (r # rows) out = build_out loads rows (out @ [entry_of_row loads r])"

definition read_history ::
  "json_loads \<Rightarrow> database \<Rightarrow> int option \<Rightarrow> string list option \<Rightarrow> error + history_entry list" where
  "read_history loads db limit types =
     (case history_tbl db of
        None \<Rightarrow> Inl (OperationalError ''no such table: history'')
      | Some tbl \<Rightarrow>
          (let rows = limit_rows limit (order_by_id_desc (where_type_in types tbl))
           in Inr (build_out loads rows [])))"

section \<open>Endpoints\<close>

definition get_state :: "database \<Rightarrow> error + StateResponse" where
  "get_state db = get_state_from_db db"

definition update_state ::
  "json_dumps \<Rightarrow> timestamp \<Rightarrow> database \<Rightarrow> StateUpdate \<Rightarrow> database \<times> (error + StateResponse)" where
  "update_state dumps now db payload =
     (if \<not> StateUpdate_valid payload then (db, Inl RequestValidationError)
      else if dict_exclude_none payload = []
      then (db, Inl (HTTPException 400
                       (''Brak p'' @ [CHR 0xC3, CHR 0xB3] @ ''l do zaktualizowania'')))
      else update_state_in_db dumps now db payload)"

text \<open>The query parameter \<open>who\<close> is \<open>None\<close> when the request leaves it out.\<close>

definition comm ::
  "json_dumps \<Rightarrow> timestamp \<Rightarrow> database \<Rightarrow> CommRequest \<Rightarrow> int option
     \<Rightarrow> database \<times> (error + CommResponse)" where
  "comm dumps now db req who_param =
     (let who = (case who_param of None \<Rightarrow> 1 | Some w \<Rightarrow> w)
      in if who \<noteq> 0 \<and> who \<noteq> 1
         then (db, Inl (HTTPException 400
                          ''Parametr who musi byc 0 (krzys) lub 1 (user)''))
         else
           (let who_str = (if who = 0 then ''krzys'' else ''user'')
            in case append_history_record dumps now db ''comm'' (Some who_str)
                      (JObj [(''message'', JStr (message req))]) of
                 (db', Inl e) \<Rightarrow> (db', Inl e)
               | (db', Inr ts) \<Rightarrow>
                   (db', Inr \<lparr>comm_status = ''saved'', comm_who = who_str, comm_ts = ts\<rparr>)))"

section \<open>The running service\<close>

text \<open>
  The module calls \<open>init_db\<close> when it is loaded, on a file that does not exist yet or
  on the file an earlier run has left, and afterwards the database changes only
  through the two POST endpoints. \<open>initialised\<close> collects what the functions below
  rely on: the declared constraints, the history table, and the status row.
\<close>

inductive reachable :: "database \<Rightarrow> bool" where
  start: "reachable (init_db now empty_database)"
| restart: "reachable db \<Longrightarrow> reachable (init_db now db)"
| post_state: "reachable db \<Longrightarrow> reachable (fst (update_state dumps now db payload))"
| post_comm: "reachable db \<Longrightarrow> reachable (fst (comm dumps now db req who_param))"

definition initialised :: "database \<Rightarrow> bool" where
  "initialised db =
     (table_constraints db \<and> history_tbl db \<noteq> None \<and>
      (case get_state_from_db db of Inl e \<Rightarrow> False | Inr cur \<Rightarrow> True))"

section \<open>Example data\<close>

text \<open>
  An instance of the two library functions for running the model on examples. On the
  values and texts listed it gives what Python's \<^verbatim>\<open>json\<close> gives; it is not meant to
  agree with it elsewhere.
\<close>

definition example_dumps :: json_dumps where
  \<open>example_dumps v =
     (if v = JObj [(''message'', JStr ''hi'')] then ''{"message": "hi"}''
      else if v = JObj [(''changed'', JObj [(''mood'', JStr ''happy'')]),
                        (''state'', JObj [(''energy'', JInt 100), (''heart_rate'', JInt 2),
                                          (''temperature'', JFloat (- 5.5)),
                                          (''mood'', JStr ''happy'')])]
      then ''{"changed": {"mood": "happy"}, "state": {"energy": 100, "heart_rate": 2, "temperature": -5.5, "mood": "happy"}}''
      else ''null'')\<close>

definition example_loads :: json_loads where
  \<open>example_loads s =
     (if s = ''{"message": "hi"}'' then Some (JObj [(''message'', JStr ''hi'')])
      else if s = ''{"changed": {"mood": "happy"}, "state": {"energy": 100, "heart_rate": 2, "temperature": -5.5, "mood": "happy"}}''
      then Some (JObj [(''changed'', JObj [(''mood'', JStr ''happy'')]),
                       (''state'', JObj [(''energy'', JInt 100), (''heart_rate'', JInt 2),
                                         (''temperature'', JFloat (- 5.5)),
                                         (''mood'', JStr ''happy'')])])
      else if s = ''null'' then Some JNull
      else None)\<close>

text \<open>The database after the first start of the service.\<close>

definition seeded_database :: database where
  "seeded_database = init_db ''2024-05-01T10:00:00.250000Z'' empty_database"

text \<open>A database whose tables exist and are empty: the status row is missing.\<close>

definition unseeded_database :: database where
  "unseeded_database = \<lparr>state_tbl = Some [], history_tbl = Some [], history_seq = 0\<rparr>"


text \<open>
  The history of the ordering example: ids 1 to 5, where 2 and 4 are messages and 1, 3
  and 5 record status changes.
\<close>

definition five_database :: database where
  \<open>five_database =
     \<lparr>state_tbl = Some [seed_row ''2024-05-01T10:00:00.250000Z''],
      history_tbl = Some
        [\<lparr>h_id = 1, h_type = ''state'', h_who = None, h_content =
            ''{"changed": {"mood": "happy"}, "state": {"energy": 100, "heart_rate": 2, "temperature": -5.5, "mood": "happy"}}'',
          h_ts = ''2024-05-01T10:00:01.500000Z''\<rparr>,
         \<lparr>h_id = 2, h_type = ''comm'', h_who = Some ''user'',
          h_content = ''{"message": "hi"}'', h_ts = ''2024-05-01T10:00:02.500000Z''\<rparr>,
         \<lparr>h_id = 3, h_type = ''state'', h_who = None, h_content =
            ''{"changed": {"mood": "happy"}, "state": {"energy": 100, "heart_rate": 2, "temperature": -5.5, "mood": "happy"}}'',
          h_ts = ''2024-05-01T10:00:03.500000Z''\<rparr>,
         \<lparr>h_id = 4, h_type = ''comm'', h_who = Some ''krzys'',
          h_content = ''{"message": "hi"}'', h_ts = ''2024-05-01T10:00:04.500000Z''\<rparr>,
         \<lparr>h_id = 5, h_type = ''state'', h_who = None, h_content =
            ''{"changed": {"mood": "happy"}, "state": {"energy": 100, "heart_rate": 2, "temperature": -5.5, "mood": "happy"}}'',
          h_ts = ''2024-05-01T10:00:05.500000Z''\<rparr>],
      history_seq = 5\<rparr>\<close>

section \<open>Facts about the parts\<close>

lemma build_out_map: "build_out loads rows out = out @ map (entry_of_row loads) rows"
  by (induction rows arbitrary: out) simp_all

lemma select_state_update:
  "select_state rows = Some row \<Longrightarrow>
   select_state (update_state_rows st ts rows) =
     Some (row\<lparr>row_energy := st_energy st, row_heart_rate := st_heart_rate st,
               row_temperature := st_temperature st, row_mood := st_mood st,
               row_last_updated := ts\<rparr>)"
  by (induction rows) (auto simp: select_state_def update_state_rows_def split: if_splits)

lemma fold_max_ge_start: "(a::int) \<le> fold max xs a"
  by (induction xs arbitrary: a) (auto intro: order_trans [OF max.cobounded2])

lemma fold_max_ge_elem: "x \<in> set xs \<Longrightarrow> (x::int) \<le> fold max xs a"
proof (induction xs arbitrary: a)
  case Nil
  then show ?case by simp
next
  case (Cons y ys)
  show ?case
  proof (cases "x = y")
    case True
    have "y \<le> max y a" by simp
    also have "\<dots> \<le> fold max ys (max y a)" by (rule fold_max_ge_start)
    finally show ?thesis using True by simp
  next
    case False
    with Cons.prems have "x \<in> set ys" by simp
    then show ?thesis using Cons.IH by simp
  qed
qed

lemma next_history_id_gt: "r \<in> set rows \<Longrightarrow> h_id r < next_history_id db rows"
  using fold_max_ge_elem [of "h_id r" "map h_id rows" "history_seq db"]
  by (simp add: next_history_id_def)

lemma insort_key_snoc_greatest:
  "f x \<le> f y \<Longrightarrow> \<forall>z\<in>set zs. f z \<le> f y \<Longrightarrow>
   insort_key f x (zs @ [y]) = insort_key f x zs @ [y]"
  by (induction zs) auto

lemma set_foldr_insort: "set (foldr (insort_key f) xs ys) = set xs \<union> set ys"
  by (induction xs) (auto simp: set_insort_key)

lemma foldr_insort_snoc_greatest:
  "\<forall>x\<in>set xs. f x \<le> f y \<Longrightarrow>
   foldr (insort_key f) xs [y] = foldr (insort_key f) xs [] @ [y]"
proof (induction xs)
  case Nil
  then show ?case by simp
next
  case (Cons x xs)
  then have ih: "foldr (insort_key f) xs [y] = foldr (insort_key f) xs [] @ [y]" by simp
  have "\<forall>z\<in>set (foldr (insort_key f) xs []). f z \<le> f y"
    using Cons.prems by (simp add: set_foldr_insort)
  then show ?case using Cons.prems ih by (simp add: insort_key_snoc_greatest)
qed

lemma sort_key_snoc_greatest:
  "\<forall>x\<in>set xs. f x \<le> f y \<Longrightarrow> sort_key f (xs @ [y]) = sort_key f xs @ [y]"
  by (simp add: sort_key_def foldr_insort_snoc_greatest)

lemma order_by_id_desc_snoc:
  "\<forall>x\<in>set xs. h_id x \<le> h_id y \<Longrightarrow> order_by_id_desc (xs @ [y]) = y # order_by_id_desc xs"
  by (simp add: order_by_id_desc_def sort_key_snoc_greatest)


lemma mset_order_by_id_desc: "mset (order_by_id_desc rows) = mset rows"
  by (simp add: order_by_id_desc_def)


lemma update_state_in_db_success:
  assumes "state_tbl db = Some rows" and "select_state rows = Some row"
    and "history_tbl db = Some hist"
  shows "update_state_in_db dumps now db changed =
     (db\<lparr>state_tbl := Some (update_state_rows (dict_update (state_of_row row) changed) now rows),
         history_tbl := Some (hist @
           [\<lparr>h_id = next_history_id db hist, h_type = ''state'', h_who = None,
             h_content = dumps (rec_content changed (dict_update (state_of_row row) changed)),
             h_ts = now\<rparr>]),
         history_seq := next_history_id db hist\<rparr>,
      Inr \<lparr>resp_energy = st_energy (dict_update (state_of_row row) changed),
           resp_heart_rate = st_heart_rate (dict_update (state_of_row row) changed),
           resp_temperature = st_temperature (dict_update (state_of_row row) changed),
           resp_mood = st_mood (dict_update (state_of_row row) changed),
           resp_updated_at = now\<rparr>)"
  using assms
  by (simp add: update_state_in_db_def insert_history_def next_history_id_def Let_def)

lemma update_state_in_db_failure:
  assumes "state_tbl db = None \<or> select_state (state_rows db) = None \<or> history_tbl db = None"
  shows "\<exists>e. update_state_in_db dumps now db changed = (db, Inl e)"
  using assms
  by (auto simp: update_state_in_db_def insert_history_def state_rows_def Let_def
      split: option.splits)

lemma update_state_in_db_Inr:
  assumes "update_state_in_db dumps now db changed = (db', Inr new)"
  obtains rows row hist where "state_tbl db = Some rows" and "select_state rows = Some row"
    and "history_tbl db = Some hist"
  using assms
  by (auto simp: update_state_in_db_def insert_history_def Let_def split: option.splits)

lemma get_state_from_db_Inr:
  assumes "get_state_from_db db = Inr prev"
  obtains rows row where "state_tbl db = Some rows" and "select_state rows = Some row"
    and "prev = \<lparr>resp_energy = row_energy row, resp_heart_rate = row_heart_rate row,
                  resp_temperature = row_temperature row, resp_mood = row_mood row,
                  resp_updated_at = row_last_updated row\<rparr>"
  using assms
  by (auto simp: get_state_from_db_def split: option.splits)

lemma seeded_database_eq:
  "seeded_database =
     \<lparr>state_tbl = Some [seed_row ''2024-05-01T10:00:00.250000Z''], history_tbl = Some [],
      history_seq = 0\<rparr>"
  by (simp add: seeded_database_def init_db_def create_state_table_def
      create_history_table_def empty_database_def state_rows_def)


lemma read_history_Some:
  "history_tbl db = Some tbl \<Longrightarrow>
   read_history loads db limit types =
     Inr (map (entry_of_row loads) (limit_rows limit (order_by_id_desc (where_type_in types tbl))))"
  by (simp add: read_history_def build_out_map)

lemma e_id_entry [simp]: "e_id (entry_of_row loads r) = h_id r"
  by (simp add: entry_of_row_def Let_def)


lemma e_type_entry_of_row [simp]: "e_type (entry_of_row loads r) = h_type r"
  by (simp add: entry_of_row_def Let_def)







lemma append_history_record_Some:
  assumes "history_tbl db = Some tbl"
  shows "append_history_record dumps now db rec_type who content =
     (db\<lparr>history_tbl := Some (tbl @
            [\<lparr>h_id = next_history_id db tbl, h_type = rec_type, h_who = who,
              h_content = dumps content, h_ts = now\<rparr>]),
         history_seq := next_history_id db tbl\<rparr>, Inr now)"
  using assms by (simp add: append_history_record_def insert_history_def Let_def)

lemma read_history_newest:
  assumes "history_tbl db = Some (tbl @ [r])" and "\<forall>x\<in>set tbl. h_id x < h_id r"
  shows "read_history loads db (Some 1) (Some [h_type r]) = Inr [entry_of_row loads r]"
proof -
  have "where_type_in (Some [h_type r]) (tbl @ [r]) =
      filter (\<lambda>x. h_type x = h_type r) tbl @ [r]"
    by (simp add: where_type_in_def)
  moreover have "\<forall>x\<in>set (filter (\<lambda>x. h_type x = h_type r) tbl). h_id x \<le> h_id r"
    using assms(2) by auto
  ultimately have "order_by_id_desc (where_type_in (Some [h_type r]) (tbl @ [r])) =
      r # order_by_id_desc (filter (\<lambda>x. h_type x = h_type r) tbl)"
    by (simp add: order_by_id_desc_snoc)
  then show ?thesis
    by (simp add: read_history_Some [OF assms(1)] limit_rows_def sql_limit_def)
qed

lemma state_rows_init_db:
  "state_rows (init_db now db) = (if state_rows db = [] then [seed_row now] else state_rows db)"
  by (simp add: init_db_def create_state_table_def create_history_table_def state_rows_def
      Let_def split: option.splits)

lemma history_rows_init_db: "history_rows (init_db now db) = history_rows db"
  by (simp add: init_db_def create_state_table_def create_history_table_def history_rows_def
      state_rows_def Let_def split: option.splits)

lemma tables_exist_init_db:
  "state_tbl (init_db now db) \<noteq> None \<and> history_tbl (init_db now db) \<noteq> None"
  by (simp add: init_db_def create_state_table_def create_history_table_def
      state_rows_def Let_def split: option.splits)

lemma init_db_unchanged:
  assumes "state_tbl db = Some rows" and "rows \<noteq> []" and "history_tbl db = Some tbl"
  shows "init_db now db = db"
  using assms
  by (simp add: init_db_def create_state_table_def create_history_table_def state_rows_def)

lemma init_db_twice: "init_db now2 (init_db now1 db) = init_db now1 db"
proof -
  obtain rows tbl where "state_tbl (init_db now1 db) = Some rows"
    and "history_tbl (init_db now1 db) = Some tbl"
    using tables_exist_init_db [of now1 db] by auto
  moreover from this have "rows \<noteq> []"
    using state_rows_init_db [of now1 db] by (auto simp: state_rows_def seed_row_def split: if_splits)
  ultimately show ?thesis by (simp add: init_db_unchanged)
qed

lemma table_constraints_one_row:
  assumes "table_constraints db"
  shows "length (state_rows db) \<le> 1"
proof (cases "state_rows db")
  case Nil
  then show ?thesis by simp
next
  case (Cons r rs)
  show ?thesis
  proof (cases rs)
    case Nil
    with Cons show ?thesis by simp
  next
    case (Cons r' rs')
    with \<open>state_rows db = r # rs\<close> assms have False
      by (auto simp: table_constraints_def)
    then show ?thesis ..
  qed
qed


section \<open>What every database of the service satisfies\<close>

text \<open>
  The declared constraints hold in the empty file and are kept by every function that
  writes, and the status row, once seeded, stays.
\<close>

lemma map_row_id_update_state_rows [simp]:
  "map row_id (update_state_rows st ts rows) = map row_id rows"
  by (simp add: update_state_rows_def)

lemma list_all_update_state_rows:
  "list_all (\<lambda>r. row_id r = 1) (update_state_rows st ts rows) = list_all (\<lambda>r. row_id r = 1) rows"
  by (induction rows) (simp_all add: update_state_rows_def)

lemma distinct_history_snoc:
  assumes "distinct (map h_id tbl)"
  shows "distinct (map h_id (tbl @ [\<lparr>h_id = next_history_id db tbl, h_type = ty, h_who = w,
                                      h_content = c, h_ts = ts\<rparr>]))"
proof -
  have "next_history_id db tbl \<notin> h_id ` set tbl"
    using next_history_id_gt [of _ tbl db] by force
  with assms show ?thesis by simp
qed

lemma table_constraints_empty_database: "table_constraints empty_database"
  by (simp add: table_constraints_def empty_database_def state_rows_def history_rows_def)

lemma table_constraints_init_db:
  "table_constraints db \<Longrightarrow> table_constraints (init_db now db)"
  by (simp add: table_constraints_def state_rows_init_db history_rows_init_db seed_row_def)

lemma table_constraints_update_state_in_db:
  assumes "table_constraints db"
  shows "table_constraints (fst (update_state_in_db dumps now db changed))"
proof (cases "update_state_in_db dumps now db changed")
  case (Pair db' res)
  show ?thesis
  proof (cases res)
    case (Inl e)
    with Pair have "db' = db"
      by (auto simp: update_state_in_db_def Let_def split: option.splits sum.splits)
    with Pair assms show ?thesis by simp
  next
    case (Inr new)
    with Pair obtain rows row hist where tbl: "state_tbl db = Some rows"
      and sel: "select_state rows = Some row" and hist: "history_tbl db = Some hist"
      by (auto elim: update_state_in_db_Inr)
    from assms tbl hist have "list_all (\<lambda>r. row_id r = 1) rows" "distinct (map row_id rows)"
      "distinct (map h_id hist)"
      by (simp_all add: table_constraints_def state_rows_def history_rows_def)
    then show ?thesis
      by (simp add: update_state_in_db_success [OF tbl sel hist] table_constraints_def
          state_rows_def history_rows_def list_all_update_state_rows distinct_history_snoc
          del: distinct_append map_append)
  qed
qed

lemma table_constraints_append_history_record:
  assumes "table_constraints db"
  shows "table_constraints (fst (append_history_record dumps now db rec_type who content))"
proof (cases "history_tbl db")
  case None
  then show ?thesis using assms by (simp add: append_history_record_def insert_history_def)
next
  case (Some tbl)
  from assms Some have "distinct (map h_id tbl)"
    by (simp add: table_constraints_def history_rows_def)
  then show ?thesis using assms
    by (simp add: append_history_record_Some [OF Some] table_constraints_def
        state_rows_def history_rows_def distinct_history_snoc del: distinct_append map_append)
qed

lemma status_row_init_db:
  assumes "table_constraints db"
  shows "\<exists>prev. get_state_from_db (init_db now db) = Inr prev"
proof -
  from tables_exist_init_db [of now db] obtain rows
    where rows: "state_tbl (init_db now db) = Some rows" by auto
  then have eq: "rows = state_rows (init_db now db)" by (simp add: state_rows_def)
  have "rows \<noteq> []"
    unfolding eq by (simp add: state_rows_init_db)
  moreover have "list_all (\<lambda>r. row_id r = 1) rows"
    unfolding eq using table_constraints_init_db [OF assms, of now]
    by (simp add: table_constraints_def)
  ultimately obtain row where "select_state rows = Some row"
    by (cases rows) (auto simp: select_state_def)
  with rows show ?thesis by (simp add: get_state_from_db_def)
qed

lemma status_row_update_state_in_db:
  assumes "get_state_from_db db = Inr prev"
  shows "\<exists>cur. get_state_from_db (fst (update_state_in_db dumps now db changed)) = Inr cur"
proof -
  from assms obtain rows row where tbl: "state_tbl db = Some rows"
    and sel: "select_state rows = Some row"
    by (auto elim: get_state_from_db_Inr)
  show ?thesis
  proof (cases "history_tbl db")
    case None
    then have "\<exists>e. update_state_in_db dumps now db changed = (db, Inl e)"
      by (simp add: update_state_in_db_failure)
    with assms show ?thesis by auto
  next
    case (Some hist)
    show ?thesis
      by (simp add: update_state_in_db_success [OF tbl sel Some] get_state_from_db_def
          select_state_update [OF sel])
  qed
qed

lemma status_row_append_history_record:
  "get_state_from_db (fst (append_history_record dumps now db rec_type who content)) =
   get_state_from_db db"
  by (cases "history_tbl db")
    (simp_all add: append_history_record_def insert_history_def get_state_from_db_def Let_def)

lemma initialised_init_db:
  assumes "table_constraints db"
  shows "initialised (init_db now db)"
  using table_constraints_init_db [OF assms, of now] tables_exist_init_db [of now db]
    status_row_init_db [OF assms, of now]
  by (auto simp: initialised_def)

lemma history_tbl_update_state_in_db:
  "history_tbl db \<noteq> None \<Longrightarrow>
   history_tbl (fst (update_state_in_db dumps now db changed)) \<noteq> None"
  by (auto simp: update_state_in_db_def insert_history_def Let_def split: option.splits)

lemma history_tbl_append_history_record:
  "history_tbl db \<noteq> None \<Longrightarrow>
   history_tbl (fst (append_history_record dumps now db rec_type who content)) \<noteq> None"
  by (auto simp: append_history_record_def insert_history_def Let_def split: option.splits)

lemma initialised_update_state_in_db:
  assumes "initialised db"
  shows "initialised (fst (update_state_in_db dumps now db changed))"
proof -
  from assms obtain prev where "get_state_from_db db = Inr prev"
    by (auto simp: initialised_def split: sum.splits)
  from status_row_update_state_in_db [OF this, of dumps now changed]
  show ?thesis
    using assms table_constraints_update_state_in_db [of db dumps now changed]
      history_tbl_update_state_in_db [of db dumps now changed]
    by (auto simp: initialised_def)
qed

lemma initialised_append_history_record:
  assumes "initialised db"
  shows "initialised (fst (append_history_record dumps now db rec_type who content))"
  using assms table_constraints_append_history_record [of db dumps now rec_type who content]
    history_tbl_append_history_record [of db dumps now rec_type who content]
  by (simp add: initialised_def status_row_append_history_record)

lemma fst_update_state:
  "fst (update_state dumps now db payload) = db \<or>
   fst (update_state dumps now db payload) = fst (update_state_in_db dumps now db payload)"
  by (simp add: update_state_def)

lemma fst_comm:
  "fst (comm dumps now db req who_param) = db \<or>
   (\<exists>who. fst (comm dumps now db req who_param) =
      fst (append_history_record dumps now db ''comm'' who
             (JObj [(''message'', JStr (message req))])))"
proof -
  have keep: "fst (case p of (db', Inl e) \<Rightarrow> (db', Inl e)
                        | (db', Inr ts) \<Rightarrow> (db', Inr (f ts))) = fst p"
    for p :: "database \<times> (error + timestamp)" and f :: "timestamp \<Rightarrow> CommResponse"
    by (cases p) (simp split: sum.splits)
  show ?thesis
    unfolding comm_def Let_def by (auto simp: keep)
qed

lemma reachable_initialised: "reachable db \<Longrightarrow> initialised db"
proof (induction rule: reachable.induct)
  case (start now)
  show ?case by (rule initialised_init_db [OF table_constraints_empty_database])
next
  case (restart db now)
  then have "table_constraints db" by (simp add: initialised_def)
  then show ?case by (rule initialised_init_db)
next
  case (post_state db dumps now payload)
  then show ?case
    using fst_update_state [of dumps now db payload]
      initialised_update_state_in_db [of db dumps now payload]
    by auto
next
  case (post_comm db dumps now req who_param)
  then show ?case
    using fst_comm [of dumps now db req who_param] initialised_append_history_record [of db dumps now]
    by auto
qed

lemma reachable_ready:
  assumes "reachable db"
  shows "\<exists>prev hist. get_state_from_db db = Inr prev \<and> history_tbl db = Some hist \<and>
     distinct (map h_id hist)"
proof -
  from assms have "initialised db" by (rule reachable_initialised)
  then show ?thesis
    by (auto simp: initialised_def table_constraints_def history_rows_def split: sum.splits)
qed

section \<open>The status record\<close>




text \<open>
  Claim C2. A call of \<open>update_state_in_db\<close> that raises leaves the database as it
  was, and it raises when the status row is missing. A call that returns has stored
  the merged record it returns and has appended exactly one history row: type
  "state", content the serialised \<^verbatim>\<open>{"changed": ..., "state": ...}\<close> of the change
  set and the merged fields.
\<close>

theorem update_state_in_db_atomic:
  assumes "update_state_in_db dumps now db changed = (db', res)"
  shows "(case res of
            Inl e \<Rightarrow> db' = db
          | Inr new \<Rightarrow>
              get_state_from_db db' = Inr new \<and>
              (\<exists>prev. get_state_from_db db = Inr prev \<and>
                 resp_energy new =
                   (case upd_energy changed of None \<Rightarrow> resp_energy prev | Some e \<Rightarrow> e) \<and>
                 resp_heart_rate new =
                   (case upd_heart_rate changed of None \<Rightarrow> resp_heart_rate prev | Some h \<Rightarrow> h) \<and>
                 resp_temperature new =
                   (case upd_temperature changed of
                      None \<Rightarrow> resp_temperature prev | Some t \<Rightarrow> t) \<and>
                 resp_mood new =
                   (case upd_mood changed of None \<Rightarrow> resp_mood prev | Some m \<Rightarrow> m)) \<and>
              history_rows db' = history_rows db @
                [\<lparr>h_id = next_history_id db (history_rows db), h_type = ''state'',
                  h_who = None,
                  h_content = dumps (JObj
                    [(''changed'', JObj (dict_exclude_none changed)),
                     (''state'', JObj [(''energy'', JInt (resp_energy new)),
                                       (''heart_rate'', JInt (resp_heart_rate new)),
                                       (''temperature'', JFloat (resp_temperature new)),
                                       (''mood'', JStr (resp_mood new))])]),
                  h_ts = resp_updated_at new\<rparr>]) \<and>
         (select_state (state_rows db) = None \<longrightarrow> (\<exists>e. res = Inl e))"
proof (cases res)
  case (Inl e)
  have "fst (update_state_in_db dumps now db changed) = db"
    if "snd (update_state_in_db dumps now db changed) = Inl e"
    using that
    by (auto simp: update_state_in_db_def Let_def split: option.splits sum.splits)
  then show ?thesis using assms Inl by simp
next
  case (Inr new)
  from assms Inr obtain rows row hist where tbl: "state_tbl db = Some rows"
    and sel: "select_state rows = Some row" and hist: "history_tbl db = Some hist"
    by (auto elim: update_state_in_db_Inr)
  note run = update_state_in_db_success [OF tbl sel hist, of dumps now changed]
  have db': "db' = fst (update_state_in_db dumps now db changed)"
    and new: "Inr new = snd (update_state_in_db dumps now db changed)"
    using assms Inr by simp_all
  have stored: "get_state_from_db db' = Inr new"
    unfolding db' new
    by (simp add: run get_state_from_db_def select_state_update [OF sel])
  have merged: "\<exists>prev. get_state_from_db db = Inr prev \<and>
                 resp_energy new =
                   (case upd_energy changed of None \<Rightarrow> resp_energy prev | Some e \<Rightarrow> e) \<and>
                 resp_heart_rate new =
                   (case upd_heart_rate changed of None \<Rightarrow> resp_heart_rate prev | Some h \<Rightarrow> h) \<and>
                 resp_temperature new =
                   (case upd_temperature changed of
                      None \<Rightarrow> resp_temperature prev | Some t \<Rightarrow> t) \<and>
                 resp_mood new =
                   (case upd_mood changed of None \<Rightarrow> resp_mood prev | Some m \<Rightarrow> m)"
    using new
    by (simp add: run get_state_from_db_def tbl sel dict_update_def state_of_row_def
        split: option.splits)
  have appended: "history_rows db' = history_rows db @
                [\<lparr>h_id = next_history_id db (history_rows db), h_type = ''state'',
                  h_who = None,
                  h_content = dumps (JObj
                    [(''changed'', JObj (dict_exclude_none changed)),
                     (''state'', JObj [(''energy'', JInt (resp_energy new)),
                                       (''heart_rate'', JInt (resp_heart_rate new)),
                                       (''temperature'', JFloat (resp_temperature new)),
                                       (''mood'', JStr (resp_mood new))])]),
                  h_ts = resp_updated_at new\<rparr>]"
    using new unfolding db'
    by (simp add: run history_rows_def hist rec_content_def state_items_def)
  have "select_state (state_rows db) \<noteq> None"
    by (simp add: state_rows_def tbl sel)
  then show ?thesis using Inr stored merged appended by simp
qed

text \<open>
  On the seeded database the call stores the new mood and appends history row 1; on a
  database without the status row it raises and changes nothing.
\<close>

theorem update_state_in_db_atomic_witness:
  \<open>update_state_in_db example_dumps ''2024-05-01T10:00:03.750000Z'' seeded_database
      \<lparr>upd_energy = None, upd_heart_rate = None, upd_temperature = None,
       upd_mood = Some ''happy''\<rparr> =
     (\<lparr>state_tbl = Some [\<lparr>row_id = 1, row_energy = 100, row_heart_rate = 2,
                          row_temperature = - 5.5, row_mood = ''happy'',
                          row_last_updated = ''2024-05-01T10:00:03.750000Z''\<rparr>],
       history_tbl = Some [\<lparr>h_id = 1, h_type = ''state'', h_who = None,
          h_content = ''{"changed": {"mood": "happy"}, "state": {"energy": 100, "heart_rate": 2, "temperature": -5.5, "mood": "happy"}}'',
          h_ts = ''2024-05-01T10:00:03.750000Z''\<rparr>],
       history_seq = 1\<rparr>,
      Inr \<lparr>resp_energy = 100, resp_heart_rate = 2, resp_temperature = - 5.5,
           resp_mood = ''happy'', resp_updated_at = ''2024-05-01T10:00:03.750000Z''\<rparr>) \<and>
   history_rows seeded_database = [] \<and>
   select_state (state_rows unseeded_database) = None \<and>
   update_state_in_db example_dumps ''2024-05-01T10:00:03.750000Z'' unseeded_database
      \<lparr>upd_energy = None, upd_heart_rate = None, upd_temperature = None,
       upd_mood = Some ''happy''\<rparr> =
     (unseeded_database, Inl (RuntimeError ''State missing''))\<close>
proof -
  let ?ch = "\<lparr>upd_energy = None, upd_heart_rate = None, upd_temperature = None,
       upd_mood = Some ''happy''\<rparr>"
  let ?now = "''2024-05-01T10:00:03.750000Z''"
  obtain db' res where run: "update_state_in_db example_dumps ?now seeded_database ?ch = (db', res)"
    by (cases "update_state_in_db example_dumps ?now seeded_database ?ch")
  obtain db'' res' where
    fail: "update_state_in_db example_dumps ?now unseeded_database ?ch = (db'', res')"
    by (cases "update_state_in_db example_dumps ?now unseeded_database ?ch")
  have missing: "select_state (state_rows unseeded_database) = None"
    by (simp add: unseeded_database_def state_rows_def select_state_def)
  have raised: "res' = Inl (RuntimeError ''State missing'')"
    using fail by (simp add: unseeded_database_def update_state_in_db_def select_state_def)
  have same: "db'' = unseeded_database"
    using update_state_in_db_atomic [OF fail] raised by simp
  have tbl: "state_tbl seeded_database = Some [seed_row ''2024-05-01T10:00:00.250000Z'']"
    and sel: "select_state [seed_row ''2024-05-01T10:00:00.250000Z'']
           = Some (seed_row ''2024-05-01T10:00:00.250000Z'')"
    and hist: "history_tbl seeded_database = Some []"
    by (simp_all add: seeded_database_eq select_state_def seed_row_def)
  have ok: "update_state_in_db example_dumps ?now seeded_database ?ch =
     (\<lparr>state_tbl = Some [\<lparr>row_id = 1, row_energy = 100, row_heart_rate = 2,
                          row_temperature = - 5.5, row_mood = ''happy'',
                          row_last_updated = ?now\<rparr>],
       history_tbl = Some [\<lparr>h_id = 1, h_type = ''state'', h_who = None,
          h_content = example_dumps (JObj
                    [(''changed'', JObj [(''mood'', JStr ''happy'')]),
                     (''state'', JObj [(''energy'', JInt 100),
                                       (''heart_rate'', JInt 2),
                                       (''temperature'', JFloat (- 5.5)),
                                       (''mood'', JStr ''happy'')])]),
          h_ts = ?now\<rparr>],
       history_seq = 1\<rparr>,
      Inr \<lparr>resp_energy = 100, resp_heart_rate = 2, resp_temperature = - 5.5,
           resp_mood = ''happy'', resp_updated_at = ?now\<rparr>)"
    by (subst update_state_in_db_success [OF tbl sel hist])
      (simp add: seeded_database_eq next_history_id_def dict_update_def state_of_row_def
        seed_row_def update_state_rows_def rec_content_def dict_exclude_none_def
        state_items_def)
  have rendered: \<open>example_dumps (JObj
                    [(''changed'', JObj [(''mood'', JStr ''happy'')]),
                     (''state'', JObj [(''energy'', JInt 100),
                                       (''heart_rate'', JInt 2),
                                       (''temperature'', JFloat (- 5.5)),
                                       (''mood'', JStr ''happy'')])]) =
     ''{"changed": {"mood": "happy"}, "state": {"energy": 100, "heart_rate": 2, "temperature": -5.5, "mood": "happy"}}''\<close>
    by (simp add: example_dumps_def)
  have "history_rows seeded_database = []"
    by (simp add: seeded_database_eq history_rows_def)
  then show ?thesis
    using update_state_in_db_atomic [OF run] missing fail raised same ok rendered by simp
qed

text \<open>
  Claim C9. The history row that a returning \<open>update_state_in_db\<close> appends has type
  "state" and no \<open>who\<close>; the \<open>state\<close> object in its content has the four keys
  energy, heart\_rate, temperature and mood, and no \<open>updated_at\<close>; its \<open>ts\<close> is the
  \<open>updated_at\<close> returned, which is also the \<open>last_updated\<close> stored in the row.
\<close>

theorem update_state_in_db_history_entry:
  assumes "update_state_in_db dumps now db changed = (db', Inr new)"
  shows "\<exists>entry items row.
     history_rows db' = history_rows db @ [entry] \<and>
     h_type entry = ''state'' \<and>
     h_who entry = None \<and>
     h_content entry =
       dumps (JObj [(''changed'', JObj (dict_exclude_none changed)), (''state'', JObj items)]) \<and>
     map fst items = [''energy'', ''heart_rate'', ''temperature'', ''mood''] \<and>
     ''updated_at'' \<notin> set (map fst items) \<and>
     h_ts entry = resp_updated_at new \<and>
     select_state (state_rows db') = Some row \<and>
     row_last_updated row = h_ts entry"
proof -
  from assms obtain rows row hist where tbl: "state_tbl db = Some rows"
    and sel: "select_state rows = Some row" and hist: "history_tbl db = Some hist"
    by (rule update_state_in_db_Inr)
  note run = update_state_in_db_success [OF tbl sel hist, of dumps now changed]
  let ?st = "dict_update (state_of_row row) changed"
  let ?entry = "\<lparr>h_id = next_history_id db hist, h_type = ''state'', h_who = None,
             h_content = dumps (rec_content changed ?st), h_ts = now\<rparr>"
  let ?row = "row\<lparr>row_energy := st_energy ?st, row_heart_rate := st_heart_rate ?st,
               row_temperature := st_temperature ?st, row_mood := st_mood ?st,
               row_last_updated := now\<rparr>"
  from assms run have db': "db' = db\<lparr>state_tbl := Some (update_state_rows ?st now rows),
         history_tbl := Some (hist @ [?entry]), history_seq := next_history_id db hist\<rparr>"
    and new: "resp_updated_at new = now"
    by auto
  have "history_rows db' = history_rows db @ [?entry]"
    by (simp add: db' history_rows_def hist)
  moreover have "h_content ?entry =
       dumps (JObj [(''changed'', JObj (dict_exclude_none changed)),
                    (''state'', JObj (state_items ?st))])"
    by (simp add: rec_content_def)
  moreover have "map fst (state_items ?st) = [''energy'', ''heart_rate'', ''temperature'', ''mood'']"
    by (simp add: state_items_def)
  moreover have "''updated_at'' \<notin> set (map fst (state_items ?st))"
    by (simp add: state_items_def)
  moreover have "select_state (state_rows db') = Some ?row"
    by (simp add: db' state_rows_def select_state_update [OF sel])
  ultimately show ?thesis
    using new
    by (intro exI [of _ ?entry] exI [of _ "state_items ?st"] exI [of _ ?row]) simp
qed

text \<open>
  On the seeded database, with energy and temperature changed, the one history row
  written is a "state" row without \<open>who\<close>, stamped with the time of the call.
\<close>

theorem update_state_in_db_history_entry_witness:
  "\<exists>db' new entry.
     update_state_in_db example_dumps ''2024-05-01T10:00:07.125000Z'' seeded_database
       \<lparr>upd_energy = Some 40, upd_heart_rate = None, upd_temperature = Some 36.6,
        upd_mood = None\<rparr> = (db', Inr new) \<and>
     history_rows db' = [entry] \<and> h_type entry = ''state'' \<and> h_who entry = None \<and>
     h_ts entry = ''2024-05-01T10:00:07.125000Z'' \<and>
     resp_updated_at new = ''2024-05-01T10:00:07.125000Z''"
proof -
  let ?ch = "\<lparr>upd_energy = Some 40, upd_heart_rate = None, upd_temperature = Some 36.6,
        upd_mood = None\<rparr>"
  let ?now = "''2024-05-01T10:00:07.125000Z''"
  have tbl: "state_tbl seeded_database = Some [seed_row ''2024-05-01T10:00:00.250000Z'']"
    and sel: "select_state [seed_row ''2024-05-01T10:00:00.250000Z'']
           = Some (seed_row ''2024-05-01T10:00:00.250000Z'')"
    and hist: "history_tbl seeded_database = Some []"
    by (simp_all add: seeded_database_eq select_state_def seed_row_def)
  obtain db' new where run:
    "update_state_in_db example_dumps ?now seeded_database ?ch = (db', Inr new)"
    and stamp: "resp_updated_at new = ?now"
    using update_state_in_db_success [OF tbl sel hist, of example_dumps ?now ?ch] by simp
  have "history_rows seeded_database = []"
    by (simp add: seeded_database_eq history_rows_def)
  with update_state_in_db_history_entry [OF run] stamp run show ?thesis
    by auto
qed

text \<open>
  Claim C4, as the code has it. When the state table holds no row with id 1,
  \<open>get_state\<close> raises \<^verbatim>\<open>RuntimeError("State missing")\<close>. No handler turns it into an
  HTTP error, so the request is answered with 500: a server error, not a client error.
\<close>

theorem get_state_missing_row:
  assumes "state_tbl db = Some rows" and "select_state rows = None"
  shows "get_state db = Inl (RuntimeError ''State missing'') \<and>
     http_status (get_state db) = 500 \<and>
     \<not> client_error (http_status (get_state db))"
  using assms
  by (simp add: get_state_def get_state_from_db_def http_status_def client_error_def)

text \<open>The database whose tables are empty.\<close>

theorem get_state_missing_row_witness:
  "state_tbl unseeded_database = Some [] \<and> select_state [] = None \<and>
   get_state unseeded_database = Inl (RuntimeError ''State missing'') \<and>
   http_status (get_state unseeded_database) = 500"
proof -
  have tbl: "state_tbl unseeded_database = Some []"
    by (simp add: unseeded_database_def)
  have sel: "select_state [] = None"
    by (simp add: select_state_def)
  from get_state_missing_row [OF tbl sel] tbl sel show ?thesis by blast
qed

text \<open>
  Claim C4 as stated fails: with the status row missing the answer is not 404, nor any
  other client error.
\<close>

theorem get_state_missing_row_counterexample:
  "select_state (state_rows unseeded_database) = None \<and>
   http_status (get_state unseeded_database) \<noteq> 404 \<and>
   \<not> client_error (http_status (get_state unseeded_database))"
  by (simp add: get_state_def get_state_from_db_def http_status_def client_error_def
      unseeded_database_def select_state_def state_rows_def)



text \<open>
  Claim C7. A second \<open>init_db\<close> changes nothing. When the state table is absent or
  empty, \<open>init_db\<close> seeds it with energy 100, heart\_rate 2, temperature -5.5, mood
  "neutral" and the clock reading of the call; rows that exist are kept. Under the
  table's declared constraints the state table holds exactly one row after two calls.
  The history is not touched.
\<close>

theorem init_db_idempotent:
  "init_db now2 (init_db now1 db) = init_db now1 db \<and>
   (state_rows db = [] \<longrightarrow>
      state_rows (init_db now1 db) =
        [\<lparr>row_id = 1, row_energy = 100, row_heart_rate = 2, row_temperature = - 5.5,
          row_mood = ''neutral'', row_last_updated = now1\<rparr>] \<and>
      get_state_from_db (init_db now1 db) =
        Inr \<lparr>resp_energy = 100, resp_heart_rate = 2, resp_temperature = - 5.5,
             resp_mood = ''neutral'', resp_updated_at = now1\<rparr>) \<and>
   (state_rows db \<noteq> [] \<longrightarrow> state_rows (init_db now1 db) = state_rows db) \<and>
   (table_constraints db \<longrightarrow> length (state_rows (init_db now2 (init_db now1 db))) = 1) \<and>
   history_rows (init_db now1 db) = history_rows db"
proof -
  have seeded: "state_rows (init_db now1 db) =
        [\<lparr>row_id = 1, row_energy = 100, row_heart_rate = 2, row_temperature = - 5.5,
          row_mood = ''neutral'', row_last_updated = now1\<rparr>]" if "state_rows db = []"
    using that by (simp add: state_rows_init_db seed_row_def)
  have current: "get_state_from_db (init_db now1 db) =
        Inr \<lparr>resp_energy = 100, resp_heart_rate = 2, resp_temperature = - 5.5,
             resp_mood = ''neutral'', resp_updated_at = now1\<rparr>" if "state_rows db = []"
  proof -
    from tables_exist_init_db [of now1 db] obtain rows
      where rows: "state_tbl (init_db now1 db) = Some rows" by auto
    with seeded [OF that] have "rows = [\<lparr>row_id = 1, row_energy = 100, row_heart_rate = 2,
        row_temperature = - 5.5, row_mood = ''neutral'', row_last_updated = now1\<rparr>]"
      by (simp add: state_rows_def)
    with rows show ?thesis by (simp add: get_state_from_db_def select_state_def)
  qed
  have one: "length (state_rows (init_db now2 (init_db now1 db))) = 1" if "table_constraints db"
    using table_constraints_one_row [OF that]
    by (cases "state_rows db") (simp_all add: init_db_twice state_rows_init_db)
  show ?thesis
    using seeded current one by (simp add: init_db_twice state_rows_init_db history_rows_init_db)
qed

text \<open>
  Starting the service twice on a file that does not exist yet, and once more on the
  database that has its row.
\<close>

theorem init_db_idempotent_witness:
  "state_rows empty_database = [] \<and> table_constraints empty_database \<and>
   state_rows (init_db ''2024-05-01T10:00:00.250000Z'' empty_database) =
     [\<lparr>row_id = 1, row_energy = 100, row_heart_rate = 2, row_temperature = - 5.5,
       row_mood = ''neutral'', row_last_updated = ''2024-05-01T10:00:00.250000Z''\<rparr>] \<and>
   init_db ''2024-05-02T08:30:00.500000Z'' (init_db ''2024-05-01T10:00:00.250000Z'' empty_database) =
     init_db ''2024-05-01T10:00:00.250000Z'' empty_database \<and>
   length (state_rows (init_db ''2024-05-02T08:30:00.500000Z''
             (init_db ''2024-05-01T10:00:00.250000Z'' empty_database))) = 1 \<and>
   state_rows five_database \<noteq> [] \<and>
   state_rows (init_db ''2024-05-02T08:30:00.500000Z'' five_database) = state_rows five_database"
proof -
  have none: "state_rows empty_database = []"
    by (simp add: empty_database_def state_rows_def)
  have some: "state_rows five_database \<noteq> []"
    by (simp add: five_database_def state_rows_def)
  from init_db_idempotent
         [of "''2024-05-02T08:30:00.500000Z''" "''2024-05-01T10:00:00.250000Z''" empty_database]
       init_db_idempotent
         [of "''2024-05-02T08:30:00.500000Z''" "''2024-05-02T08:30:00.500000Z''" five_database]
       none some table_constraints_empty_database
  show ?thesis by simp
qed

section \<open>The history\<close>







section \<open>Messages\<close>

text \<open>
  Claim C8. When the history table exists and the serialised message parses back to
  itself, appending a "comm" record of "user" and then reading with the type filter
  "comm" and limit 1 returns exactly that record: content the message, \<open>who\<close> "user".
  At the endpoint, a \<open>who\<close> other than 0 and 1 is answered with \<open>HTTPException\<close> 400 and
  nothing is stored; 0 is recorded and answered as "krzys", 1 as "user".
\<close>

theorem comm_round_trip:
  assumes "history_tbl db = Some tbl"
    and "loads (dumps (JObj [(''message'', JStr msg)])) = Some (JObj [(''message'', JStr msg)])"
  shows "(\<exists>db' i.
       append_history_record dumps now db ''comm'' (Some ''user'')
         (JObj [(''message'', JStr msg)]) = (db', Inr now) \<and>
       read_history loads db' (Some 1) (Some [''comm'']) =
         Inr [\<lparr>e_id = i, e_type = ''comm'', e_who = Some ''user'',
               e_content = JObj [(''message'', JStr msg)], e_ts = now\<rparr>]) \<and>
     (who \<noteq> 0 \<and> who \<noteq> 1 \<longrightarrow>
        (\<exists>detail. comm dumps now db req (Some who) = (db, Inl (HTTPException 400 detail)))) \<and>
     (\<exists>db0. comm dumps now db req (Some 0) =
        (db0, Inr \<lparr>comm_status = ''saved'', comm_who = ''krzys'', comm_ts = now\<rparr>) \<and>
        h_who (last (history_rows db0)) = Some ''krzys'') \<and>
     (\<exists>db1. comm dumps now db req (Some 1) =
        (db1, Inr \<lparr>comm_status = ''saved'', comm_who = ''user'', comm_ts = now\<rparr>) \<and>
        h_who (last (history_rows db1)) = Some ''user'')"
proof -
  let ?content = "JObj [(''message'', JStr msg)]"
  let ?r = "\<lparr>h_id = next_history_id db tbl, h_type = ''comm'', h_who = Some ''user'',
              h_content = dumps ?content, h_ts = now\<rparr>"
  let ?db' = "db\<lparr>history_tbl := Some (tbl @ [?r]), history_seq := next_history_id db tbl\<rparr>"
  have app: "append_history_record dumps now db ''comm'' (Some ''user'') ?content =
      (?db', Inr now)"
    by (rule append_history_record_Some [OF assms(1)])
  have "history_tbl ?db' = Some (tbl @ [?r])" by simp
  moreover have "\<forall>x\<in>set tbl. h_id x < h_id ?r"
    by (simp add: next_history_id_gt)
  ultimately have "read_history loads ?db' (Some 1) (Some [h_type ?r]) =
      Inr [entry_of_row loads ?r]"
    by (rule read_history_newest)
  then have rd: "read_history loads ?db' (Some 1) (Some [''comm'']) =
      Inr [\<lparr>e_id = next_history_id db tbl, e_type = ''comm'', e_who = Some ''user'',
               e_content = ?content, e_ts = now\<rparr>]"
    using assms(2) by (simp add: entry_of_row_def)
  have trip: "\<exists>db' i.
       append_history_record dumps now db ''comm'' (Some ''user'') ?content = (db', Inr now) \<and>
       read_history loads db' (Some 1) (Some [''comm'']) =
         Inr [\<lparr>e_id = i, e_type = ''comm'', e_who = Some ''user'',
               e_content = ?content, e_ts = now\<rparr>]"
    using app rd by blast
  have bad: "who \<noteq> 0 \<and> who \<noteq> 1 \<longrightarrow>
        (\<exists>detail. comm dumps now db req (Some who) = (db, Inl (HTTPException 400 detail)))"
    by (simp add: comm_def)
  have krzys: "\<exists>db0. comm dumps now db req (Some 0) =
        (db0, Inr \<lparr>comm_status = ''saved'', comm_who = ''krzys'', comm_ts = now\<rparr>) \<and>
        h_who (last (history_rows db0)) = Some ''krzys''"
    by (simp add: comm_def append_history_record_Some [OF assms(1)] history_rows_def Let_def)
  have user: "\<exists>db1. comm dumps now db req (Some 1) =
        (db1, Inr \<lparr>comm_status = ''saved'', comm_who = ''user'', comm_ts = now\<rparr>) \<and>
        h_who (last (history_rows db1)) = Some ''user''"
    by (simp add: comm_def append_history_record_Some [OF assms(1)] history_rows_def Let_def)
  from trip bad krzys user show ?thesis by (intro conjI)
qed

text \<open>
  The message "hi" is appended to the history of five as entry 6 and read back; the
  request with \<open>who\<close> 7 is answered with 400.
\<close>

theorem comm_round_trip_witness:
  \<open>history_tbl five_database \<noteq> None \<and>
   example_loads (example_dumps (JObj [(''message'', JStr ''hi'')])) =
     Some (JObj [(''message'', JStr ''hi'')]) \<and>
   read_history example_loads
     (fst (append_history_record example_dumps ''2024-05-01T10:00:09.125000Z'' five_database
             ''comm'' (Some ''user'') (JObj [(''message'', JStr ''hi'')])))
     (Some 1) (Some [''comm'']) =
     Inr [\<lparr>e_id = 6, e_type = ''comm'', e_who = Some ''user'',
           e_content = JObj [(''message'', JStr ''hi'')],
           e_ts = ''2024-05-01T10:00:09.125000Z''\<rparr>] \<and>
   http_status (snd (comm example_dumps ''2024-05-01T10:00:09.125000Z'' five_database
                       \<lparr>message = ''hi''\<rparr> (Some 7))) = 400\<close>
proof -
  let ?now = "''2024-05-01T10:00:09.125000Z''"
  let ?hi = "JObj [(''message'', JStr ''hi'')]"
  obtain tbl where tbl: "history_tbl five_database = Some tbl"
    and seq: "next_history_id five_database tbl = 6"
    by (simp add: five_database_def next_history_id_def)
  have codec: "example_loads (example_dumps ?hi) = Some ?hi"
    by (simp add: example_loads_def example_dumps_def)
  note inst = comm_round_trip [where db = five_database and loads = example_loads
      and dumps = example_dumps and msg = "''hi''" and now = ?now and who = 7
      and req = "\<lparr>message = ''hi''\<rparr>", OF tbl codec]
  from inst obtain db' i where
    app: "append_history_record example_dumps ?now five_database ''comm'' (Some ''user'') ?hi =
        (db', Inr ?now)"
    and rd: "read_history example_loads db' (Some 1) (Some [''comm'']) =
         Inr [\<lparr>e_id = i, e_type = ''comm'', e_who = Some ''user'',
               e_content = ?hi, e_ts = ?now\<rparr>]"
    by blast
  from app have db': "db' = fst (append_history_record example_dumps ?now five_database
      ''comm'' (Some ''user'') ?hi)"
    by simp
  have "history_rows db' \<noteq> [] \<and> h_id (last (history_rows db')) = 6"
    unfolding db' by (simp add: append_history_record_Some [OF tbl] seq history_rows_def)
  moreover have "i = 6"
  proof -
    from app have "history_tbl db' =
        Some (tbl @ [\<lparr>h_id = 6, h_type = ''comm'', h_who = Some ''user'',
                      h_content = example_dumps ?hi, h_ts = ?now\<rparr>])"
      by (auto simp: append_history_record_Some [OF tbl] seq)
    moreover have "\<forall>x\<in>set tbl. h_id x < 6"
      using next_history_id_gt [of _ tbl five_database] seq by simp
    ultimately have "read_history example_loads db' (Some 1) (Some [''comm'']) =
        Inr [entry_of_row example_loads \<lparr>h_id = 6, h_type = ''comm'', h_who = Some ''user'',
                      h_content = example_dumps ?hi, h_ts = ?now\<rparr>]"
      using read_history_newest [of db' tbl "\<lparr>h_id = 6, h_type = ''comm'',
          h_who = Some ''user'', h_content = example_dumps ?hi, h_ts = ?now\<rparr>" example_loads]
      by simp
    with rd show ?thesis by (simp add: entry_of_row_def)
  qed
  moreover from inst have "http_status (snd (comm example_dumps ?now five_database
                       \<lparr>message = ''hi''\<rparr> (Some 7))) = 400"
    by (auto simp: http_status_def)
  ultimately show ?thesis using tbl codec rd unfolding db' by simp
qed

text \<open>
  Claim C10. A request to \<open>comm\<close> without \<open>who\<close> does what the request with \<open>who\<close> 1
  does. When the history table exists it is answered "saved" with the label "user",
  and the one row appended carries that label and the message.
\<close>

theorem comm_default_who:
  "comm dumps now db req None = comm dumps now db req (Some 1) \<and>
   (history_tbl db = Some tbl \<longrightarrow>
      comm dumps now db req None =
        (db\<lparr>history_tbl := Some (tbl @
               [\<lparr>h_id = next_history_id db tbl, h_type = ''comm'', h_who = Some ''user'',
                 h_content = dumps (JObj [(''message'', JStr (message req))]),
                 h_ts = now\<rparr>]),
            history_seq := next_history_id db tbl\<rparr>,
         Inr \<lparr>comm_status = ''saved'', comm_who = ''user'', comm_ts = now\<rparr>))"
proof -
  have same: "comm dumps now db req None = comm dumps now db req (Some 1)"
    by (simp add: comm_def)
  have saved: "comm dumps now db req None =
        (db\<lparr>history_tbl := Some (tbl @
               [\<lparr>h_id = next_history_id db tbl, h_type = ''comm'', h_who = Some ''user'',
                 h_content = dumps (JObj [(''message'', JStr (message req))]),
                 h_ts = now\<rparr>]),
            history_seq := next_history_id db tbl\<rparr>,
         Inr \<lparr>comm_status = ''saved'', comm_who = ''user'', comm_ts = now\<rparr>)"
    if "history_tbl db = Some tbl"
    by (simp add: comm_def append_history_record_Some [OF that] Let_def)
  from same saved show ?thesis by simp
qed

text \<open>The first message after the first start, sent without \<open>who\<close>.\<close>

theorem comm_default_who_witness:
  \<open>history_tbl seeded_database = Some [] \<and>
   comm example_dumps ''2024-05-01T10:00:09.125000Z'' seeded_database \<lparr>message = ''hi''\<rparr> None =
     (\<lparr>state_tbl = Some [seed_row ''2024-05-01T10:00:00.250000Z''],
       history_tbl = Some [\<lparr>h_id = 1, h_type = ''comm'', h_who = Some ''user'',
                            h_content = ''{"message": "hi"}'',
                            h_ts = ''2024-05-01T10:00:09.125000Z''\<rparr>],
       history_seq = 1\<rparr>,
      Inr \<lparr>comm_status = ''saved'', comm_who = ''user'',
           comm_ts = ''2024-05-01T10:00:09.125000Z''\<rparr>)\<close>
proof -
  have tbl: "history_tbl seeded_database = Some []"
    by (simp add: seeded_database_eq)
  from comm_default_who [of example_dumps "''2024-05-01T10:00:09.125000Z''" seeded_database
      "\<lparr>message = ''hi''\<rparr>" "[]", THEN conjunct2, THEN mp, OF tbl]
  have run: "comm example_dumps ''2024-05-01T10:00:09.125000Z'' seeded_database
      \<lparr>message = ''hi''\<rparr> None =
        (seeded_database\<lparr>history_tbl := Some
               [\<lparr>h_id = next_history_id seeded_database [], h_type = ''comm'',
                 h_who = Some ''user'',
                 h_content = example_dumps (JObj [(''message'', JStr ''hi'')]),
                 h_ts = ''2024-05-01T10:00:09.125000Z''\<rparr>],
            history_seq := next_history_id seeded_database []\<rparr>,
         Inr \<lparr>comm_status = ''saved'', comm_who = ''user'',
              comm_ts = ''2024-05-01T10:00:09.125000Z''\<rparr>)"
    by simp
  show ?thesis
    unfolding run
    by (simp add: seeded_database_eq next_history_id_def example_dumps_def)
qed

end
